theory Spec2Isabelle
  imports Complex_Main
begin

section \<open>The flowercare exporter: data model\<close>

text \<open>
  The exporter reads a Flower Care plant sensor over Bluetooth and exposes the readings
  as Prometheus metrics. \<^verbatim>\<open>collector.go\<close> holds the caching collector,
  \<^verbatim>\<open>main.go\<close> the configuration and the startup.

  Conventions of the embedding:
  \<^item> a \<^verbatim>\<open>time.Time\<close> is the number of nanoseconds since the Unix epoch, an
    \<open>int\<close>; a \<^verbatim>\<open>time.Duration\<close> is a number of nanoseconds, an \<open>int\<close>
    that the Go type keeps within 64 bits (\<open>minDuration\<close> .. \<open>maxDuration\<close>);
  \<^item> the clock and the Bluetooth device are the outside world: every clock reading and
    every device answer that one call of \<^verbatim>\<open>Collect\<close> consumes is a field of the
    record \<open>scrape\<close> handed to it;
  \<^item> the channel \<^verbatim>\<open>ch\<close> is the list of metrics sent so far, in order;
  \<^item> a \<^verbatim>\<open>float64\<close> is the real number it denotes; conversions from integers and
    the one product of the code round to 53 significant bits;
  \<^item> an \<^verbatim>\<open>error\<close> is a value of the datatype \<open>error\<close>, and
    \<^verbatim>\<open>log.Printf\<close> appends a line to the list of logged lines;
  \<^item> the packages \<^verbatim>\<open>time\<close>, \<^verbatim>\<open>miflora\<close> and
    \<^verbatim>\<open>prometheus\<close> are libraries: of each, the model has the types and the
    behaviour that the two source files rely on.
\<close>

subsection \<open>Time\<close>

type_synonym time = int
type_synonym duration = int

definition Second :: duration where
  "Second = 1000000000"

definition Minute :: duration where
  "Minute = 60 * Second"

definition maxDuration :: duration where
  "maxDuration = 2 ^ 63 - 1"

definition minDuration :: duration where
  "minDuration = - (2 ^ 63)"

text \<open>The zero \<^verbatim>\<open>time.Time\<close> is January 1, year 1, 00:00 UTC.\<close>

definition zeroTime :: time where
  "zeroTime = - 62135596800 * Second"

definition IsZero :: "time \<Rightarrow> bool" where
  "IsZero t = (t = zeroTime)"

text \<open>
  \<^verbatim>\<open>t.Sub(u)\<close>: the difference, and the largest (smallest) duration when the
  difference does not fit a \<^verbatim>\<open>Duration\<close>.
\<close>

definition Sub :: "time \<Rightarrow> time \<Rightarrow> duration" where
  "Sub t u =
     (let d = t - u
      in if maxDuration < d then maxDuration
         else if d < minDuration then minDuration
         else d)"

text \<open>\<^verbatim>\<open>time.Since(t)\<close> is \<^verbatim>\<open>time.Now().Sub(t)\<close>; the reading of the clock is the first argument.\<close>

definition Since :: "time \<Rightarrow> time \<Rightarrow> duration" where
  "Since now t = Sub now t"

text \<open>\<^verbatim>\<open>t.Unix()\<close>: whole seconds since the epoch, rounded down.\<close>

definition Unix :: "time \<Rightarrow> int" where
  "Unix t = t div Second"

subsection \<open>Arithmetic of \<^verbatim>\<open>float64\<close>\<close>

text \<open>
  \<open>round53 n\<close> rounds a natural number to 53 significant bits, to nearest and to even
  on a tie: the number is unchanged below \<open>2 ^ 53\<close>, and otherwise its low
  \<open>k\<close> bits are rounded away, where \<open>k\<close> is the number of bits beyond 53.
\<close>

fun excess :: "nat \<Rightarrow> nat" where
  "excess n = (if n < 2 ^ 53 then 0 else Suc (excess (n div 2)))"

declare excess.simps [simp del]

definition round53 :: "nat \<Rightarrow> nat" where
  "round53 n =
     (let k = excess n; q = n div 2 ^ k; r = n mod 2 ^ k
      in if 2 * r > 2 ^ k \<or> (2 * r = 2 ^ k \<and> odd q) then (q + 1) * 2 ^ k else q * 2 ^ k)"

text \<open>\<^verbatim>\<open>float64(x)\<close> of an integer.\<close>

definition float64_of_int :: "int \<Rightarrow> real" where
  "float64_of_int x = (if x < 0 then - real (round53 (nat (- x))) else real (round53 (nat x)))"

definition float64_of_nat :: "nat \<Rightarrow> real" where
  "float64_of_nat n = real (round53 n)"

text \<open>
  The constant \<^verbatim>\<open>factorConductivity = 0.0001\<close> (conversion factor from uS/cm to S/m)
  is untyped; in the product with a \<^verbatim>\<open>float64\<close> it is the \<^verbatim>\<open>float64\<close>
  nearest to \<open>1 / 10000\<close>, which is \<open>7378697629483821 / 2 ^ 66\<close>.
\<close>

definition factorConductivity_mantissa :: nat where
  "factorConductivity_mantissa = 7378697629483821"

definition factorConductivity :: real where
  "factorConductivity = real factorConductivity_mantissa / 2 ^ 66"

text \<open>
  \<^verbatim>\<open>float64(v) * factorConductivity\<close>: the exact product of the two
  \<^verbatim>\<open>float64\<close> values is an integer multiple of \<open>2 ^ -66\<close>, rounded to 53
  significant bits.
\<close>

definition mul_factorConductivity :: "nat \<Rightarrow> real" where
  "mul_factorConductivity v = real (round53 (round53 v * factorConductivity_mantissa)) / 2 ^ 66"

subsection \<open>Readings\<close>

text \<open>
  \<^verbatim>\<open>miflora.Firmware\<close> and \<^verbatim>\<open>miflora.Sensors\<close> are declared by the device
  library: a version string, unsigned integer fields, and the temperature as a
  \<^verbatim>\<open>float64\<close>.
\<close>

record miflora_Firmware =
  Version :: string
  Battery :: nat

record miflora_Sensors =
  Temperature :: real
  Moisture :: nat
  Light :: nat
  Conductivity :: nat

record sensorData =
  Time :: time
  Firmware :: miflora_Firmware
  Sensors :: miflora_Sensors

text \<open>The zero value of \<^verbatim>\<open>sensorData\<close>, which a new collector holds as its cache.\<close>

definition zero_sensorData :: sensorData where
  "zero_sensorData =
     \<lparr>Time = zeroTime,
      Firmware = \<lparr>Version = [], Battery = 0\<rparr>,
      Sensors = \<lparr>Temperature = 0, Moisture = 0, Light = 0, Conductivity = 0\<rparr>\<rparr>"

subsection \<open>Descriptors and metrics of the Prometheus client\<close>

text \<open>
  A descriptor carries its name, help text, constant labels, the names of its variable
  labels and the error of its own construction, if any. \<^verbatim>\<open>NewDesc\<close> is called
  with the constant names of \<^verbatim>\<open>newCollector\<close>, which the client accepts, so the
  descriptors it makes here carry no error. \<^verbatim>\<open>NewConstMetric\<close> refuses a
  descriptor that carries an error and a list of label values whose length is not the
  number of variable labels.
\<close>

record Desc =
  fqName :: string
  helpText :: string
  constLabels :: "(string \<times> string) list"
  variableLabels :: "string list"
  err :: "string option"

datatype ValueType = CounterValue | GaugeValue

record Metric =
  metricDesc :: Desc
  valueType :: ValueType
  metricValue :: real
  labelValues :: "string list"

definition NewDesc :: "string \<Rightarrow> string \<Rightarrow> string list \<Rightarrow> (string \<times> string) list \<Rightarrow> Desc" where
  "NewDesc name hlp vars consts =
     \<lparr>fqName = name, helpText = hlp, constLabels = consts, variableLabels = vars, err = None\<rparr>"

definition NewConstMetric :: "Desc \<Rightarrow> ValueType \<Rightarrow> real \<Rightarrow> string list \<Rightarrow> string + Metric" where
  "NewConstMetric desc vt v lvs =
     (case err desc of
        Some e \<Rightarrow> Inl e
      | None \<Rightarrow>
          if length lvs \<noteq> length (variableLabels desc)
          then Inl ''inconsistent label cardinality''
          else Inr \<lparr>metricDesc = desc, valueType = vt, metricValue = v, labelValues = lvs\<rparr>)"

text \<open>
  A gauge holds a \<^verbatim>\<open>float64\<close>. A counter is only ever incremented by one here, so
  its value is a natural number.
\<close>

record Gauge =
  gaugeDesc :: Desc
  gaugeValue :: real

record Counter =
  counterDesc :: Desc
  counterValue :: nat

definition NewGauge :: "string \<Rightarrow> string \<Rightarrow> (string \<times> string) list \<Rightarrow> Gauge" where
  "NewGauge name hlp consts = \<lparr>gaugeDesc = NewDesc name hlp [] consts, gaugeValue = 0\<rparr>"

definition NewCounter :: "string \<Rightarrow> string \<Rightarrow> (string \<times> string) list \<Rightarrow> Counter" where
  "NewCounter name hlp consts = \<lparr>counterDesc = NewDesc name hlp [] consts, counterValue = 0\<rparr>"

definition Gauge_Set :: "real \<Rightarrow> Gauge \<Rightarrow> Gauge" where
  "Gauge_Set v g = g\<lparr>gaugeValue := v\<rparr>"

definition Counter_Inc :: "Counter \<Rightarrow> Counter" where
  "Counter_Inc k = k\<lparr>counterValue := counterValue k + 1\<rparr>"

definition Gauge_Collect :: "Gauge \<Rightarrow> Metric list \<Rightarrow> Metric list" where
  "Gauge_Collect g ch =
     ch @ [\<lparr>metricDesc = gaugeDesc g, valueType = GaugeValue, metricValue = gaugeValue g,
            labelValues = []\<rparr>]"

definition Counter_Collect :: "Counter \<Rightarrow> Metric list \<Rightarrow> Metric list" where
  "Counter_Collect k ch =
     ch @ [\<lparr>metricDesc = counterDesc k, valueType = CounterValue,
            metricValue = real (counterValue k), labelValues = []\<rparr>]"

subsection \<open>Errors\<close>

datatype error =
  NeedDeviceAddress
| NeedBluetoothDevice
| CanNotReadFirmware string
| CanNotReadSensors string
| CanNotCreateMetric Desc string

text \<open>What \<^verbatim>\<open>log.Printf\<close> writes: the two messages of \<^verbatim>\<open>Collect\<close>.\<close>

datatype logline =
  ErrorDuringScrape error
| ErrorCollectingMetrics error

section \<open>Configuration (\<^verbatim>\<open>main.go\<close>)\<close>

record config =
  ListenAddr :: string
  MacAddress :: string
  Device :: string
  CacheDuration :: duration

text \<open>
  The command line, as \<^verbatim>\<open>pflag.Parse\<close> reads it: each flag is given with a
  value or absent.
\<close>

record flags =
  flag_addr :: "string option"
  flag_device :: "string option"
  flag_adapter :: "string option"
  flag_cache_duration :: "duration option"

definition flagVar :: "'a \<Rightarrow> 'a option \<Rightarrow> 'a" where
  "flagVar dflt given = (case given of None \<Rightarrow> dflt | Some v \<Rightarrow> v)"

definition parseConfig :: "flags \<Rightarrow> config \<times> error option" where
  "parseConfig fl =
     (let result = \<lparr>ListenAddr = '':9294'', MacAddress = [], Device = ''hci0'',
                     CacheDuration = 2 * Minute\<rparr>;
          result = result\<lparr>ListenAddr := flagVar (ListenAddr result) (flag_addr fl)\<rparr>;
          result = result\<lparr>MacAddress := flagVar (MacAddress result) (flag_device fl)\<rparr>;
          result = result\<lparr>Device := flagVar (Device result) (flag_adapter fl)\<rparr>;
          result = result\<lparr>CacheDuration :=
                     flagVar (CacheDuration result) (flag_cache_duration fl)\<rparr>
      in if length (MacAddress result) = 0 then (result, Some NeedDeviceAddress)
         else if length (Device result) = 0 then (result, Some NeedBluetoothDevice)
         else (result, None))"

text \<open>
  What \<^verbatim>\<open>main\<close> does, as the list of its actions in order.
  \<^verbatim>\<open>log.Fatalf\<close> ends the process, so nothing follows it.
\<close>

datatype action =
  LogFatal error
| LogLookingFor string string
| MakeDataReader string string
| MakeCollector duration string
| Register
| ListenAndServe string

definition main :: "flags \<Rightarrow> action list" where
  "main fl =
     (case parseConfig fl of
        (cfg, Some e) \<Rightarrow> [LogFatal e]
      | (cfg, None) \<Rightarrow>
          [LogLookingFor (MacAddress cfg) (Device cfg),
           MakeDataReader (MacAddress cfg) (Device cfg),
           MakeCollector (CacheDuration cfg) (MacAddress cfg),
           Register,
           ListenAndServe (ListenAddr cfg)])"

text \<open>
  Logging stays inside the process; every other action of \<^verbatim>\<open>main\<close> sets up or
  uses the Bluetooth reader, the metrics registry or the HTTP server.
\<close>

fun touches_outside :: "action \<Rightarrow> bool" where
  "touches_outside (LogFatal e) = False"
| "touches_outside (LogLookingFor m d) = False"
| "touches_outside (MakeDataReader m d) = True"
| "touches_outside (MakeCollector cd m) = True"
| "touches_outside Register = True"
| "touches_outside (ListenAndServe a) = True"

section \<open>The collector (\<^verbatim>\<open>collector.go\<close>)\<close>

definition metricPrefix :: string where
  "metricPrefix = ''flowercare_''"

record flowercareCollector =
  MacAddress :: string
  Device :: string
  CacheDuration :: duration
  cache :: sensorData
  upMetric :: Gauge
  scrapeErrorsMetric :: Counter
  scrapeTimestampDesc :: Desc
  infoDesc :: Desc
  batteryDesc :: Desc
  conductivityDesc :: Desc
  lightDesc :: Desc
  moistureDesc :: Desc
  temperatureDesc :: Desc

text \<open>\<^verbatim>\<open>strings.ToLower\<close> on the bytes of an address: the letters A to Z are lowered.\<close>

definition ToLower :: "string \<Rightarrow> string" where
  "ToLower s =
     map (\<lambda>c. let n = (of_char c :: nat) in if 65 \<le> n \<and> n \<le> 90 then char_of (n + 32) else c) s"

definition newCollector :: "string \<Rightarrow> string \<Rightarrow> duration \<Rightarrow> flowercareCollector" where
  "newCollector macAddress device cacheDuration =
     (let constLabels = [(''macaddress'', ToLower macAddress)]
      in \<lparr>MacAddress = macAddress,
          Device = device,
          CacheDuration = cacheDuration,
          cache = zero_sensorData,
          upMetric = NewGauge (metricPrefix @ ''up'')
            ''Shows if data could be successfully retrieved by the collector.'' constLabels,
          scrapeErrorsMetric = NewCounter (metricPrefix @ ''scrape_errors_total'')
            ''Counts the number of scrape errors by this collector.'' constLabels,
          scrapeTimestampDesc = NewDesc (metricPrefix @ ''scrape_timestamp'')
            ''Contains the timestamp when the last communication with the Bluetooth device happened.''
            [] constLabels,
          infoDesc = NewDesc (metricPrefix @ ''info'')
            ''Contains information about the Flower Care device.'' [''version''] constLabels,
          batteryDesc = NewDesc (metricPrefix @ ''battery_percent'')
            ''Battery level in percent.'' [] constLabels,
          conductivityDesc = NewDesc (metricPrefix @ ''conductivity_sm'')
            ''Soil conductivity in Siemens/meter.'' [] constLabels,
          lightDesc = NewDesc (metricPrefix @ ''brightness_lux'')
            ''Ambient lighting in lux.'' [] constLabels,
          moistureDesc = NewDesc (metricPrefix @ ''moisture_percent'')
            ''Soil relative moisture in percent.'' [] constLabels,
          temperatureDesc = NewDesc (metricPrefix @ ''temperature_celsius'')
            ''Ambient temperature in celsius.'' [] constLabels\<rparr>)"

subsection \<open>Sending metrics\<close>

definition sendMetric :: "Metric list \<Rightarrow> Desc \<Rightarrow> real \<Rightarrow> string list \<Rightarrow> Metric list \<times> error option" where
  "sendMetric ch desc v labels =
     (case NewConstMetric desc GaugeValue v labels of
        Inl e \<Rightarrow> (ch, Some (CanNotCreateMetric desc e))
      | Inr m \<Rightarrow> (ch @ [m], None))"

text \<open>The slice of descriptor and value that the loop of \<^verbatim>\<open>collectData\<close> ranges over.\<close>

definition gauges :: "flowercareCollector \<Rightarrow> sensorData \<Rightarrow> (Desc \<times> real) list" where
  "gauges c data =
     [(batteryDesc c, float64_of_nat (Battery (Firmware data))),
      (conductivityDesc c, mul_factorConductivity (Conductivity (Sensors data))),
      (lightDesc c, float64_of_nat (Light (Sensors data))),
      (moistureDesc c, float64_of_nat (Moisture (Sensors data))),
      (temperatureDesc c, Temperature (Sensors data))]"

text \<open>The loop: it returns at the first metric that cannot be created.\<close>

fun sendGauges :: "Metric list \<Rightarrow> (Desc \<times> real) list \<Rightarrow> Metric list \<times> error option" where
  "sendGauges ch [] = (ch, None)"
| "sendGauges ch ((desc, v) # rest) =
     (case sendMetric ch desc v [] of
        (ch', Some e) \<Rightarrow> (ch', Some e)
      | (ch', None) \<Rightarrow> sendGauges ch' rest)"

definition collectData :: "flowercareCollector \<Rightarrow> Metric list \<Rightarrow> sensorData \<Rightarrow> Metric list \<times> error option" where
  "collectData c ch data =
     (case sendMetric ch (scrapeTimestampDesc c) (float64_of_int (Unix (Time data))) [] of
        (ch1, Some e) \<Rightarrow> (ch1, Some e)
      | (ch1, None) \<Rightarrow>
          (case sendMetric ch1 (infoDesc c) 1 [Version (Firmware data)] of
             (ch2, Some e) \<Rightarrow> (ch2, Some e)
           | (ch2, None) \<Rightarrow> sendGauges ch2 (gauges c data)))"

subsection \<open>Reading the device\<close>

text \<open>
  What one call of \<^verbatim>\<open>Collect\<close> takes from the outside: the clock at the staleness
  check, the answers of the device to \<^verbatim>\<open>ReadFirmware\<close> and
  \<^verbatim>\<open>ReadSensors\<close>, the clock when the reading is stamped, and the clock at the
  freshness check. The device answers and the stamp are used only if the device is read.
\<close>

record scrape =
  clockStale :: time
  firmwareAnswer :: "string + miflora_Firmware"
  sensorsAnswer :: "string + miflora_Sensors"
  clockRead :: time
  clockFresh :: time

definition readData :: "flowercareCollector \<Rightarrow> scrape \<Rightarrow> error + sensorData" where
  "readData c w =
     (case firmwareAnswer w of
        Inl e \<Rightarrow> Inl (CanNotReadFirmware e)
      | Inr firmware \<Rightarrow>
          (case sensorsAnswer w of
             Inl e \<Rightarrow> Inl (CanNotReadSensors e)
           | Inr sensors \<Rightarrow>
               Inr \<lparr>Time = clockRead w, Firmware = firmware, Sensors = sensors\<rparr>))"

subsection \<open>\<^verbatim>\<open>Collect\<close>\<close>

text \<open>
  The result of \<^verbatim>\<open>Collect\<close>: the collector afterwards, the metrics sent on the
  channel, the lines logged, and whether \<^verbatim>\<open>readData\<close> was called (the refresh
  was attempted). \<^verbatim>\<open>Collect\<close> has no return value.
\<close>

record collected =
  after :: flowercareCollector
  sent :: "Metric list"
  logged :: "logline list"
  fetched :: bool

text \<open>Lines 108 to 119: the staleness check and the refresh.\<close>

definition refresh :: "flowercareCollector \<Rightarrow> scrape \<Rightarrow> flowercareCollector \<times> logline list \<times> bool" where
  "refresh c w =
     (if Since (clockStale w) (Time (cache c)) > CacheDuration c then
        (case readData c w of
           Inl e \<Rightarrow>
             (c\<lparr>scrapeErrorsMetric := Counter_Inc (scrapeErrorsMetric c),
                upMetric := Gauge_Set 0 (upMetric c)\<rparr>,
              [ErrorDuringScrape e], True)
         | Inr data \<Rightarrow> (c\<lparr>upMetric := Gauge_Set 1 (upMetric c), cache := data\<rparr>, [], True))
      else (c, [], False))"

definition Collect :: "flowercareCollector \<Rightarrow> scrape \<Rightarrow> collected" where
  "Collect c w =
     (case refresh c w of
        (c1, log1, rd) \<Rightarrow>
          (let ch1 = Gauge_Collect (upMetric c1) [];
               ch2 = Counter_Collect (scrapeErrorsMetric c1) ch1
           in if Since (clockFresh w) (Time (cache c1)) < CacheDuration c1 then
                (case collectData c1 ch2 (cache c1) of
                   (ch3, Some e) \<Rightarrow>
                     \<lparr>after = c1, sent = ch3, logged = log1 @ [ErrorCollectingMetrics e],
                      fetched = rd\<rparr>
                 | (ch3, None) \<Rightarrow> \<lparr>after = c1, sent = ch3, logged = log1, fetched = rd\<rparr>)
              else \<lparr>after = c1, sent = ch2, logged = log1, fetched = rd\<rparr>))"

text \<open>A sequence of scrapes, one call of \<^verbatim>\<open>Collect\<close> after the other.\<close>

fun scrapes :: "flowercareCollector \<Rightarrow> scrape list \<Rightarrow> collected list" where
  "scrapes c [] = []"
| "scrapes c (w # ws) = Collect c w # scrapes (after (Collect c w)) ws"

text \<open>The collector after a sequence of scrapes.\<close>

fun final :: "flowercareCollector \<Rightarrow> scrape list \<Rightarrow> flowercareCollector" where
  "final c [] = c"
| "final c (w # ws) = final (after (Collect c w)) ws"

section \<open>Notions of the specification\<close>

subsection \<open>The liveness gauge and the error counter as sent\<close>

definition upSample :: "flowercareCollector \<Rightarrow> Metric" where
  "upSample c =
     \<lparr>metricDesc = gaugeDesc (upMetric c), valueType = GaugeValue,
      metricValue = gaugeValue (upMetric c), labelValues = []\<rparr>"

definition errorsSample :: "flowercareCollector \<Rightarrow> Metric" where
  "errorsSample c =
     \<lparr>metricDesc = counterDesc (scrapeErrorsMetric c), valueType = CounterValue,
      metricValue = real (counterValue (scrapeErrorsMetric c)), labelValues = []\<rparr>"

subsection \<open>The emission order\<close>

text \<open>
  The sensor metrics in the order the specification gives: the freshness timestamp, the
  info metric, then the gauges of battery, conductivity, light, moisture and temperature.
  Each is a descriptor, a value and the values of the variable labels.
\<close>

type_synonym sample = "Desc \<times> real \<times> string list"

definition emission :: "flowercareCollector \<Rightarrow> sensorData \<Rightarrow> sample list" where
  "emission c data =
     [(scrapeTimestampDesc c, float64_of_int (Unix (Time data)), []),
      (infoDesc c, 1, [Version (Firmware data)]),
      (batteryDesc c, float64_of_nat (Battery (Firmware data)), []),
      (conductivityDesc c, mul_factorConductivity (Conductivity (Sensors data)), []),
      (lightDesc c, float64_of_nat (Light (Sensors data)), []),
      (moistureDesc c, float64_of_nat (Moisture (Sensors data)), []),
      (temperatureDesc c, Temperature (Sensors data), [])]"

text \<open>A sample passes validation, the metric it then makes, and the error otherwise.\<close>

fun accepted :: "sample \<Rightarrow> bool" where
  "accepted (d, v, ls) = (err d = None \<and> length ls = length (variableLabels d))"

fun made :: "sample \<Rightarrow> Metric" where
  "made (d, v, ls) = \<lparr>metricDesc = d, valueType = GaugeValue, metricValue = v, labelValues = ls\<rparr>"

fun refusal :: "sample \<Rightarrow> error" where
  "refusal (d, v, ls) =
     CanNotCreateMetric d (case err d of Some e \<Rightarrow> e | None \<Rightarrow> ''inconsistent label cardinality'')"

declare accepted.simps [simp del] refusal.simps [simp del] made.simps [simp del]

definition first_refusal :: "sample list \<Rightarrow> error option" where
  "first_refusal xs = (case dropWhile accepted xs of [] \<Rightarrow> None | s # rest \<Rightarrow> Some (refusal s))"

subsection \<open>The clock\<close>

text \<open>
  The clock does not run backwards: the cached reading is not stamped later than the clock
  shows at the staleness check, and the three readings of a scrape are taken in this order.
\<close>

definition clock_advances :: "flowercareCollector \<Rightarrow> scrape \<Rightarrow> bool" where
  "clock_advances c w =
     (Time (cache c) \<le> clockStale w \<and> clockStale w \<le> clockRead w \<and> clockRead w \<le> clockFresh w)"

subsection \<open>Failed refreshes\<close>

text \<open>A scrape whose refresh is attempted and fails, and their number in a sequence.\<close>

definition refresh_fails :: "flowercareCollector \<Rightarrow> scrape \<Rightarrow> bool" where
  "refresh_fails c w = (fetched (Collect c w) \<and> isl (readData c w))"

fun failures :: "flowercareCollector \<Rightarrow> scrape list \<Rightarrow> nat" where
  "failures c [] = 0"
| "failures c (w # ws) = (if refresh_fails c w then 1 else 0) + failures (after (Collect c w)) ws"

section \<open>Example values\<close>

definition flower :: flowercareCollector where
  "flower = newCollector ''C4:7C:8D:6A:5E:1F'' ''hci0'' (2 * Minute)"

definition firmware12 :: miflora_Firmware where
  "firmware12 = \<lparr>Version = ''1.2'', Battery = 80\<rparr>"

definition sensors350 :: miflora_Sensors where
  "sensors350 = \<lparr>Temperature = 22.5, Moisture = 30, Light = 1200, Conductivity = 350\<rparr>"

text \<open>A scrape at \<open>t\<close> seconds after the epoch that finds the device answering.\<close>

definition answering :: "int \<Rightarrow> scrape" where
  "answering t =
     \<lparr>clockStale = t * Second, firmwareAnswer = Inr firmware12, sensorsAnswer = Inr sensors350,
      clockRead = t * Second + 3, clockFresh = t * Second + 4\<rparr>"

text \<open>A scrape at \<open>t\<close> seconds after the epoch that finds the device out of reach.\<close>

definition unreachable :: "int \<Rightarrow> scrape" where
  "unreachable t =
     \<lparr>clockStale = t * Second, firmwareAnswer = Inl ''timeout'', sensorsAnswer = Inl ''timeout'',
      clockRead = t * Second + 3, clockFresh = t * Second + 4\<rparr>"

text \<open>A collector configured with the longest duration that the type holds.\<close>

definition patient :: flowercareCollector where
  "patient = newCollector ''C4:7C:8D:6A:5E:1F'' ''hci0'' maxDuration"

text \<open>
  The collector \<open>flower\<close> with an info descriptor that has lost its variable label, and
  the reading that the answering device gives at 1700000000 seconds.
\<close>

definition miswired :: flowercareCollector where
  "miswired = flower\<lparr>infoDesc := (infoDesc flower)\<lparr>variableLabels := []\<rparr>\<rparr>"

definition reading :: sensorData where
  "reading = \<lparr>Time = 1700000000 * Second + 3, Firmware = firmware12, Sensors = sensors350\<rparr>"

text \<open>
  A collector with cache duration zero, and a scrape during which the clock shows the
  same nanosecond at all three readings.
\<close>

definition restless :: flowercareCollector where
  "restless = newCollector ''C4:7C:8D:6A:5E:1F'' ''hci0'' 0"

definition instant :: "int \<Rightarrow> scrape" where
  "instant t =
     \<lparr>clockStale = t * Second, firmwareAnswer = Inr firmware12, sensorsAnswer = Inr sensors350,
      clockRead = t * Second, clockFresh = t * Second\<rparr>"

text \<open>Command lines: no flag at all, an address with an empty adapter, and an address alone.\<close>

definition no_flags :: flags where
  "no_flags =
     \<lparr>flag_addr = None, flag_device = None, flag_adapter = None, flag_cache_duration = None\<rparr>"

definition empty_adapter :: flags where
  "empty_adapter =
     \<lparr>flag_addr = None, flag_device = Some ''C4:7C:8D:6A:5E:1F'', flag_adapter = Some [],
      flag_cache_duration = None\<rparr>"

definition address_only :: flags where
  "address_only =
     \<lparr>flag_addr = None, flag_device = Some ''C4:7C:8D:6A:5E:1F'', flag_adapter = None,
      flag_cache_duration = None\<rparr>"

text \<open>A reading with a conductivity of 3 uS/cm.\<close>

definition reading3 :: sensorData where
  "reading3 =
     \<lparr>Time = 1700000000 * Second + 3, Firmware = firmware12,
      Sensors = \<lparr>Temperature = 22.5, Moisture = 30, Light = 1200, Conductivity = 3\<rparr>\<rparr>"

section \<open>Auxiliary facts\<close>

subsection \<open>The refresh\<close>

lemma refresh_failed:
  "Since (clockStale w) (Time (cache c)) > CacheDuration c \<Longrightarrow> readData c w = Inl e \<Longrightarrow>
   refresh c w =
     (c\<lparr>scrapeErrorsMetric := Counter_Inc (scrapeErrorsMetric c),
        upMetric := Gauge_Set 0 (upMetric c)\<rparr>, [ErrorDuringScrape e], True)"
  by (simp add: refresh_def)

lemma refresh_succeeded:
  "Since (clockStale w) (Time (cache c)) > CacheDuration c \<Longrightarrow> readData c w = Inr d \<Longrightarrow>
   refresh c w = (c\<lparr>upMetric := Gauge_Set 1 (upMetric c), cache := d\<rparr>, [], True)"
  by (simp add: refresh_def)

lemma after_Collect: "after (Collect c w) = fst (refresh c w)"
  by (simp add: Collect_def Let_def split: prod.splits option.splits)

lemma fetched_Collect: "fetched (Collect c w) = snd (snd (refresh c w))"
  by (simp add: Collect_def Let_def split: prod.splits option.splits)

subsection \<open>What a snapshot sends\<close>

lemma sendMetric_extends: "sendMetric ch d v ls = (ch', r) \<Longrightarrow> \<exists>ms. ch' = ch @ ms"
  by (auto simp: sendMetric_def split: sum.splits)

lemma sendGauges_extends: "sendGauges ch xs = (ch', r) \<Longrightarrow> \<exists>ms. ch' = ch @ ms"
proof (induction xs arbitrary: ch)
  case Nil
  then show ?case by simp
next
  case (Cons x xs)
  obtain d v where x: "x = (d, v)" by (cases x)
  obtain ch1 r1 where s: "sendMetric ch d v [] = (ch1, r1)" by (cases "sendMetric ch d v []")
  from sendMetric_extends [OF s] obtain ms1 where ms1: "ch1 = ch @ ms1" ..
  show ?case
  proof (cases r1)
    case None
    with Cons.prems x s have "sendGauges ch1 xs = (ch', r)" by simp
    from Cons.IH [OF this] obtain ms where "ch' = ch1 @ ms" ..
    with ms1 show ?thesis by simp
  next
    case (Some e)
    with Cons.prems x s have "ch' = ch1" by simp
    with ms1 show ?thesis by simp
  qed
qed

lemma collectData_extends: "collectData c ch data = (ch', r) \<Longrightarrow> \<exists>ms. ch' = ch @ ms"
  unfolding collectData_def
  by (auto split: prod.splits option.splits dest!: sendMetric_extends sendGauges_extends)

lemma sent_Collect_prefix:
  "\<exists>ms. sent (Collect c w) = [upSample (after (Collect c w)), errorsSample (after (Collect c w))] @ ms"
  by (auto simp: Collect_def Let_def Gauge_Collect_def Counter_Collect_def upSample_def errorsSample_def
      split: prod.splits option.splits dest!: collectData_extends)

lemma sent_Collect_not_fresh:
  "\<not> Since (clockFresh w) (Time (cache (after (Collect c w)))) < CacheDuration (after (Collect c w)) \<Longrightarrow>
   sent (Collect c w) = [upSample (after (Collect c w)), errorsSample (after (Collect c w))]"
  by (auto simp: Collect_def Let_def Gauge_Collect_def Counter_Collect_def upSample_def errorsSample_def
      split: prod.splits option.splits if_splits)

lemma sent_Collect_fresh:
  "Since (clockFresh w) (Time (cache (after (Collect c w)))) < CacheDuration (after (Collect c w)) \<Longrightarrow>
   sent (Collect c w) = fst (collectData (after (Collect c w)) [upSample (after (Collect c w)), errorsSample (after (Collect c w))] (cache (after (Collect c w))))"
  by (auto simp: Collect_def Let_def Gauge_Collect_def Counter_Collect_def upSample_def errorsSample_def
      split: prod.splits option.splits if_splits)

subsection \<open>The emission step against the emission order\<close>

lemma sendMetric_accepted:
  "accepted (d, v, ls) \<Longrightarrow> sendMetric ch d v ls = (ch @ [made (d, v, ls)], None)"
  by (auto simp: sendMetric_def NewConstMetric_def accepted.simps made.simps)

lemma sendMetric_refused:
  "\<not> accepted (d, v, ls) \<Longrightarrow> sendMetric ch d v ls = (ch, Some (refusal (d, v, ls)))"
  by (auto simp: sendMetric_def NewConstMetric_def accepted.simps refusal.simps split: option.splits)

lemma sendGauges_prefix:
  "sendGauges ch xs =
     (ch @ map made (takeWhile accepted (map (\<lambda>(d, v). (d, v, [])) xs)),
      first_refusal (map (\<lambda>(d, v). (d, v, [])) xs))"
proof (induction xs arbitrary: ch)
  case Nil
  show ?case by (simp add: first_refusal_def)
next
  case (Cons x xs)
  obtain d v where x: "x = (d, v)" by (cases x)
  show ?case
  proof (cases "accepted (d, v, [])")
    case True
    then have "sendMetric ch d v [] = (ch @ [made (d, v, [])], None)"
      by (rule sendMetric_accepted)
    with True x Cons.IH [of "ch @ [made (d, v, [])]"] show ?thesis
      by (simp add: first_refusal_def)
  next
    case False
    then have "sendMetric ch d v [] = (ch, Some (refusal (d, v, [])))"
      by (rule sendMetric_refused)
    with False x show ?thesis
      by (simp add: first_refusal_def)
  qed
qed

lemma emission_gauges:
  "emission c data =
     (scrapeTimestampDesc c, float64_of_int (Unix (Time data)), []) #
     (infoDesc c, 1, [Version (Firmware data)]) #
     map (\<lambda>(d, v). (d, v, [])) (gauges c data)"
  by (simp add: emission_def gauges_def)

lemma collectData_prefix:
  "collectData c ch data =
     (ch @ map made (takeWhile accepted (emission c data)), first_refusal (emission c data))"
proof (cases "accepted (scrapeTimestampDesc c, float64_of_int (Unix (Time data)), [])")
  case False
  from sendMetric_refused [OF this] False show ?thesis
    by (simp add: collectData_def emission_gauges first_refusal_def)
next
  case ts: True
  note s1 = sendMetric_accepted [OF ts]
  show ?thesis
  proof (cases "accepted (infoDesc c, 1, [Version (Firmware data)])")
    case False
    from sendMetric_refused [OF this] False ts s1 show ?thesis
      by (simp add: collectData_def emission_gauges first_refusal_def)
  next
    case True
    from sendMetric_accepted [OF this] True ts s1 show ?thesis
      by (simp add: collectData_def emission_gauges first_refusal_def sendGauges_prefix)
  qed
qed

subsection \<open>New collectors\<close>

lemma newCollector_fields:
  "cache (newCollector m d cd) = zero_sensorData"
  "CacheDuration (newCollector m d cd) = cd"
  "counterValue (scrapeErrorsMetric (newCollector m d cd)) = 0"
  "gaugeValue (upMetric (newCollector m d cd)) = 0"
  by (simp_all add: newCollector_def NewCounter_def NewGauge_def Let_def)

lemmas flower_simps = newCollector_fields [of "''C4:7C:8D:6A:5E:1F''" "''hci0''" "2 * Minute", folded flower_def]

lemmas time_defs = Since_def Sub_def zeroTime_def Second_def Minute_def maxDuration_def minDuration_def

subsection \<open>The first failing sample\<close>

lemma takeWhile_cut:
  "\<forall>x \<in> set before. P x \<Longrightarrow> \<not> P s \<Longrightarrow> takeWhile P (before @ s # rest) = before"
  by (induction before) auto

lemma dropWhile_cut:
  "\<forall>x \<in> set before. P x \<Longrightarrow> \<not> P s \<Longrightarrow> dropWhile P (before @ s # rest) = s # rest"
  by (induction before) auto

lemma logged_Collect_fresh:
  "Since (clockFresh w) (Time (cache (after (Collect c w)))) < CacheDuration (after (Collect c w)) \<Longrightarrow>
   snd (collectData (after (Collect c w))
          [upSample (after (Collect c w)), errorsSample (after (Collect c w))]
          (cache (after (Collect c w)))) = Some e \<Longrightarrow>
   logged (Collect c w) = fst (snd (refresh c w)) @ [ErrorCollectingMetrics e]"
  by (auto simp: Collect_def Let_def Gauge_Collect_def Counter_Collect_def upSample_def
      errorsSample_def split: prod.splits option.splits if_splits)

lemma miswired_after:
  "after (Collect miswired (answering 1700000000)) =
     miswired\<lparr>upMetric := Gauge_Set 1 (upMetric miswired), cache := reading\<rparr>"
  by (simp add: after_Collect refresh_def miswired_def flower_simps zero_sensorData_def
      answering_def readData_def reading_def time_defs)

lemma miswired_fresh:
  "Since (clockFresh (answering 1700000000)) (Time (cache (after (Collect miswired (answering 1700000000)))))
     < CacheDuration (after (Collect miswired (answering 1700000000)))"
  unfolding miswired_after
  by (simp add: miswired_def flower_simps reading_def answering_def time_defs)

lemma miswired_emission:
  "emission (after (Collect miswired (answering 1700000000))) reading =
     [(scrapeTimestampDesc flower, float64_of_int (Unix (Time reading)), [])] @
     (infoDesc miswired, 1, [''1.2'']) #
     [(batteryDesc flower, float64_of_nat 80, []),
      (conductivityDesc flower, mul_factorConductivity 350, []),
      (lightDesc flower, float64_of_nat 1200, []),
      (moistureDesc flower, float64_of_nat 30, []),
      (temperatureDesc flower, 22.5, [])]"
  unfolding miswired_after
  by (simp add: emission_def miswired_def reading_def firmware12_def sensors350_def)

lemma flower_descs:
  "err (scrapeTimestampDesc flower) = None" "variableLabels (scrapeTimestampDesc flower) = []"
  "err (batteryDesc flower) = None" "variableLabels (batteryDesc flower) = []"
  "err (infoDesc flower) = None" "variableLabels (infoDesc flower) = [''version'']"
  "fqName (scrapeTimestampDesc flower) = ''flowercare_scrape_timestamp''"
  "fqName (batteryDesc flower) = ''flowercare_battery_percent''"
  "fqName (gaugeDesc (upMetric flower)) = ''flowercare_up''"
  "fqName (counterDesc (scrapeErrorsMetric flower)) = ''flowercare_scrape_errors_total''"
  by (simp_all add: flower_def newCollector_def NewDesc_def NewGauge_def NewCounter_def Let_def
      metricPrefix_def)

lemma emission_same_descs: "emission (c\<lparr>upMetric := g, cache := d\<rparr>) data = emission c data"
  by (simp add: emission_def)

lemma miswired_sent:
  "sent (Collect miswired (answering 1700000000)) =
     [upSample (miswired\<lparr>upMetric := Gauge_Set 1 (upMetric miswired), cache := reading\<rparr>),
      errorsSample (miswired\<lparr>upMetric := Gauge_Set 1 (upMetric miswired), cache := reading\<rparr>),
      made (scrapeTimestampDesc flower, float64_of_int (Unix (Time reading)), [])]"
proof -
  have "takeWhile accepted (emission miswired reading) =
      [(scrapeTimestampDesc flower, float64_of_int (Unix (Time reading)), [])]"
    by (simp add: emission_def accepted.simps miswired_def flower_descs)
  with sent_Collect_fresh [OF miswired_fresh] show ?thesis
    unfolding miswired_after by (simp add: collectData_prefix emission_same_descs)
qed

subsection \<open>The cache across the refresh\<close>

lemma CacheDuration_refresh: "CacheDuration (fst (refresh c w)) = CacheDuration c"
  by (simp add: refresh_def split: sum.splits)

lemma cache_refresh:
  "cache (fst (refresh c w)) = cache c \<or> Time (cache (fst (refresh c w))) = clockRead w"
  by (auto simp: refresh_def readData_def split: sum.splits)

lemma cache_time_refresh:
  "clock_advances c w \<Longrightarrow> Time (cache (fst (refresh c w))) \<le> clockFresh w"
  using cache_refresh [of c w] by (auto simp: clock_advances_def)

subsection \<open>Small integers, ages and seconds\<close>

lemma round53_small: "n < 2 ^ 53 \<Longrightarrow> round53 n = n"
  by (simp add: round53_def excess.simps)

lemma float64_of_int_small: "\<bar>x\<bar> < 2 ^ 53 \<Longrightarrow> float64_of_int x = of_int x"
  by (auto simp: float64_of_int_def round53_small)

lemma Since_exact:
  "t \<le> now \<Longrightarrow> D \<le> maxDuration \<Longrightarrow> Since now t < D \<Longrightarrow> now - t < D"
  by (auto simp: Since_def Sub_def Let_def split: if_splits)

lemma Since_lower: "t \<le> now \<Longrightarrow> 0 \<le> Since now t"
  by (auto simp: Since_def Sub_def Let_def maxDuration_def minDuration_def)

lemma Unix_bound:
  "- (2 ^ 63) \<le> t \<Longrightarrow> t \<le> 2 ^ 63 \<Longrightarrow> \<bar>Unix t\<bar> < 2 ^ 53"
proof -
  assume a: "- (2 ^ 63) \<le> t" "t \<le> 2 ^ 63"
  have "t div 1000000000 \<le> 2 ^ 63 div 1000000000"
    using a(2) by (rule zdiv_mono1) simp
  moreover have "(- (2 ^ 63)) div 1000000000 \<le> t div 1000000000"
    using a(1) by (rule zdiv_mono1) simp
  ultimately show ?thesis
    by (simp add: Unix_def Second_def)
qed

subsection \<open>Snapshots of the example collector\<close>

lemma flower_after_answering:
  "after (Collect flower (answering 1700000000)) =
     flower\<lparr>upMetric := Gauge_Set 1 (upMetric flower), cache := reading\<rparr>"
  by (simp add: after_Collect refresh_def flower_simps zero_sensorData_def
      answering_def readData_def reading_def time_defs)

lemma flower_after_unreachable:
  "after (Collect flower (unreachable 1700000000)) =
     flower\<lparr>scrapeErrorsMetric := Counter_Inc (scrapeErrorsMetric flower),
            upMetric := Gauge_Set 0 (upMetric flower)\<rparr>"
  by (simp add: after_Collect refresh_def flower_simps zero_sensorData_def
      unreachable_def readData_def time_defs)

lemma flower_accepted: "takeWhile accepted (emission flower data) = emission flower data"
  by (simp add: emission_def accepted.simps flower_def newCollector_def NewDesc_def Let_def)

lemma flower_sent_answering:
  "sent (Collect flower (answering 1700000000)) =
     [upSample (flower\<lparr>upMetric := Gauge_Set 1 (upMetric flower), cache := reading\<rparr>),
      errorsSample (flower\<lparr>upMetric := Gauge_Set 1 (upMetric flower), cache := reading\<rparr>)] @
     map made (emission flower reading)"
proof -
  have "Since (clockFresh (answering 1700000000))
      (Time (cache (after (Collect flower (answering 1700000000)))))
     < CacheDuration (after (Collect flower (answering 1700000000)))"
    unfolding flower_after_answering
    by (simp add: flower_simps reading_def answering_def time_defs)
  from sent_Collect_fresh [OF this] show ?thesis
    unfolding flower_after_answering
    by (simp add: collectData_prefix emission_same_descs flower_accepted)
qed

subsection \<open>Snapshots without refresh\<close>

lemma not_fetched_same: "\<not> fetched (Collect c w) \<Longrightarrow> after (Collect c w) = c"
  by (simp add: fetched_Collect after_Collect refresh_def split: if_splits sum.splits)

lemma no_refresh_final:
  "list_all (\<lambda>r. \<not> fetched r) (scrapes c ws) \<Longrightarrow> final c ws = c"
  by (induction ws arbitrary: c) (auto simp: not_fetched_same)

lemma sensor_part:
  "drop 2 (sent (Collect c w)) =
     (if Since (clockFresh w) (Time (cache (after (Collect c w)))) < CacheDuration (after (Collect c w))
      then map made (takeWhile accepted
             (emission (after (Collect c w)) (cache (after (Collect c w)))))
      else [])"
  using sent_Collect_fresh [of w c] sent_Collect_not_fresh [of w c]
  by (simp add: collectData_prefix)

subsection \<open>The error counter step by step\<close>

lemma counter_step:
  "counterValue (scrapeErrorsMetric (after (Collect c w))) =
     counterValue (scrapeErrorsMetric c) + (if refresh_fails c w then 1 else 0)"
  by (auto simp: refresh_fails_def fetched_Collect after_Collect refresh_def Counter_Inc_def
      split: sum.splits)

lemma counter_final:
  "counterValue (scrapeErrorsMetric (final c ws)) = counterValue (scrapeErrorsMetric c) + failures c ws"
  by (induction ws arbitrary: c) (simp_all add: counter_step)

lemma counter_sorted:
  "sorted (counterValue (scrapeErrorsMetric c) #
           map (\<lambda>r. counterValue (scrapeErrorsMetric (after r))) (scrapes c ws))"
proof (induction ws arbitrary: c)
  case Nil
  show ?case by simp
next
  case (Cons w ws)
  have "counterValue (scrapeErrorsMetric c) \<le> counterValue (scrapeErrorsMetric (after (Collect c w)))"
    by (simp add: counter_step)
  moreover note Cons.IH [of "after (Collect c w)"]
  ultimately show ?case
    by (auto simp: order_trans)
qed

lemma counter_sent:
  "metricValue (sent (Collect c w) ! 1) = real (counterValue (scrapeErrorsMetric (after (Collect c w))))"
proof -
  obtain ms where "sent (Collect c w) =
      [upSample (after (Collect c w)), errorsSample (after (Collect c w))] @ ms"
    using sent_Collect_prefix by blast
  then show ?thesis by (simp add: errorsSample_def)
qed

subsection \<open>The parsed configuration\<close>

lemma parseConfig_fields:
  "config.MacAddress (fst (parseConfig fl)) = flagVar [] (flag_device fl)"
  "config.Device (fst (parseConfig fl)) = flagVar ''hci0'' (flag_adapter fl)"
  "config.CacheDuration (fst (parseConfig fl)) = flagVar (2 * Minute) (flag_cache_duration fl)"
  "config.ListenAddr (fst (parseConfig fl)) = flagVar '':9294'' (flag_addr fl)"
  by (simp_all add: parseConfig_def Let_def)

lemma parseConfig_error:
  "snd (parseConfig fl) =
     (if config.MacAddress (fst (parseConfig fl)) = [] then Some NeedDeviceAddress
      else if config.Device (fst (parseConfig fl)) = [] then Some NeedBluetoothDevice
      else None)"
  by (simp add: parseConfig_def Let_def)

lemma main_fatal: "snd (parseConfig fl) = Some e \<Longrightarrow> main fl = [LogFatal e]"
  by (cases "parseConfig fl") (simp add: main_def)

subsection \<open>Rounding to 53 bits\<close>

lemma excess_lower: "2 ^ 53 \<le> n \<Longrightarrow> 2 ^ 52 * 2 ^ excess n \<le> n"
proof (induction n rule: excess.induct)
  case (1 n)
  show ?case
  proof (cases "n div 2 < 2 ^ 53")
    case True
    then have "excess (n div 2) = 0" by (simp add: excess.simps)
    with "1.prems" have "excess n = Suc 0" by (subst excess.simps) simp
    with "1.prems" show ?thesis by simp
  next
    case False
    with "1.prems" "1.IH" have "2 ^ 52 * 2 ^ excess (n div 2) \<le> n div 2" by simp
    moreover from "1.prems" have "excess n = Suc (excess (n div 2))"
      by (subst excess.simps) simp
    ultimately show ?thesis by simp
  qed
qed

lemma round53_cases:
  "round53 n = n div 2 ^ excess n * 2 ^ excess n
   \<or> round53 n = (n div 2 ^ excess n + 1) * 2 ^ excess n \<and> 2 ^ excess n \<le> 2 * (n mod 2 ^ excess n)"
  by (auto simp: round53_def Let_def)

lemma round53_down:
  "round53 n = n div 2 ^ excess n * 2 ^ excess n \<Longrightarrow> 2 * (n mod 2 ^ excess n) \<le> 2 ^ excess n"
  by (auto simp: round53_def Let_def split: if_splits)

lemma round53_error: "2 * \<bar>int (round53 n) - int n\<bar> \<le> 2 ^ excess n"
proof -
  define P where "P = (2::nat) ^ excess n"
  define q where "q = n div P"
  define r where "r = n mod P"
  have n: "n = q * P + r"
    by (simp add: q_def r_def)
  have r: "r < P"
    by (simp add: r_def P_def)
  from round53_cases [of n]
  consider (down) "round53 n = q * P" | (up) "round53 n = (q + 1) * P" "P \<le> 2 * r"
    unfolding P_def [symmetric] q_def [symmetric] r_def [symmetric] by blast
  then have "2 * \<bar>int (round53 n) - int n\<bar> \<le> int P"
  proof cases
    case down
    with round53_down [of n] have "2 * r \<le> P"
      by (simp add: P_def q_def r_def)
    moreover from down n have "int (round53 n) - int n = - int r"
      by simp
    ultimately show ?thesis by simp
  next
    case up
    from up(1) n have "int (round53 n) - int n = int P - int r"
      by (simp add: algebra_simps)
    with up(2) r show ?thesis by simp
  qed
  then show ?thesis by (simp add: P_def)
qed

lemma round53_relative: "\<bar>real (round53 n) - real n\<bar> \<le> real n / 2 ^ 53"
proof (cases "n < 2 ^ 53")
  case True
  then show ?thesis by (simp add: round53_small)
next
  case False
  define x where "x = \<bar>real (round53 n) - real n\<bar>"
  define p where "p = (2::real) ^ excess n"
  from False have "2 ^ 53 \<le> n" by simp
  then have "2 ^ 52 * 2 ^ excess n \<le> n" by (rule excess_lower)
  then have "real (2 ^ 52 * 2 ^ excess n) \<le> real n" by (simp only: of_nat_le_iff)
  then have 1: "2 ^ 52 * p \<le> real n" by (simp add: p_def)
  have "real_of_int (2 * \<bar>int (round53 n) - int n\<bar>) \<le> real_of_int (2 ^ excess n)"
    using round53_error [of n] by (simp only: of_int_le_iff)
  then have 2: "2 * x \<le> p" by (simp add: x_def p_def)
  from 1 2 have "2 ^ 53 * x \<le> real n" by simp
  then have "x \<le> real n / 2 ^ 53" by (simp add: field_simps)
  then show ?thesis by (simp only: x_def)
qed

lemma mul_factorConductivity_bound:
  assumes "v < 2 ^ 53"
  shows "\<bar>mul_factorConductivity v - real v * (1 / 10000)\<bar> \<le> real v * (1 / 10000) / 2 ^ 52"
proof -
  let ?N = "v * factorConductivity_mantissa"
  define E where "E = real (round53 ?N) - real ?N"
  have N: "real ?N = real v * 7378697629483821"
    by (simp add: factorConductivity_mantissa_def)
  have e: "\<bar>E\<bar> \<le> real v * 7378697629483821 / 2 ^ 53"
    using round53_relative [of ?N] unfolding E_def N .
  have "real (round53 ?N) = real v * 7378697629483821 + E"
    unfolding E_def N by simp
  with assms have m: "mul_factorConductivity v = (real v * 7378697629483821 + E) / 2 ^ 66"
    by (simp add: mul_factorConductivity_def round53_small)
  have v: "0 \<le> real v" by simp
  from e v show ?thesis
    unfolding m by (simp add: abs_le_iff field_simps) linarith
qed

subsection \<open>The product for a conductivity of 3\<close>

lemma excess_3: "excess 22136092888451463 = 2"
  by (simp add: excess.simps)

lemma round53_3: "round53 22136092888451463 = 22136092888451464"
  by (simp add: round53_def excess_3 Let_def)

lemma mul_factorConductivity_3: "mul_factorConductivity 3 = 5534023222112866 / 2 ^ 64"
proof -
  have "round53 3 = 3" by (simp add: round53_small)
  then have "mul_factorConductivity 3 = real (round53 22136092888451463) / 2 ^ 66"
    by (simp add: mul_factorConductivity_def factorConductivity_mantissa_def)
  then show ?thesis by (simp add: round53_3)
qed

section \<open>The refresh\<close>

text \<open>
  C3. In a snapshot whose refresh is attempted and fails, the cache is left as it was, the
  error counter is one more, the liveness gauge is 0, the failure is logged, and the
  snapshot still sends the liveness gauge and the counter: \<open>Collect\<close> returns no error.
  When the refresh succeeds, the cache is the new reading, stamped with the clock at the
  read, and the liveness gauge is 1.
\<close>

theorem refresh_outcome:
  assumes "fetched (Collect c w)"
  shows "case readData c w of
           Inl e \<Rightarrow>
             cache (after (Collect c w)) = cache c
             \<and> counterValue (scrapeErrorsMetric (after (Collect c w))) =
                 counterValue (scrapeErrorsMetric c) + 1
             \<and> gaugeValue (upMetric (after (Collect c w))) = 0
             \<and> logged (Collect c w) ! 0 = ErrorDuringScrape e
             \<and> metricValue (sent (Collect c w) ! 0) = 0
             \<and> metricValue (sent (Collect c w) ! 1) = real (counterValue (scrapeErrorsMetric c) + 1)
         | Inr data \<Rightarrow>
             cache (after (Collect c w)) = data
             \<and> Time data = clockRead w
             \<and> counterValue (scrapeErrorsMetric (after (Collect c w))) =
                 counterValue (scrapeErrorsMetric c)
             \<and> gaugeValue (upMetric (after (Collect c w))) = 1
             \<and> metricValue (sent (Collect c w) ! 0) = 1"
proof -
  from assms have st: "CacheDuration c < Since (clockStale w) (Time (cache c))"
    by (auto simp: fetched_Collect refresh_def split: if_splits)
  obtain ms where ms: "sent (Collect c w) =
      [upSample (after (Collect c w)), errorsSample (after (Collect c w))] @ ms"
    using sent_Collect_prefix by blast
  show ?thesis
  proof (cases "readData c w")
    case (Inl e)
    from refresh_failed [OF st Inl]
    have a: "after (Collect c w) = c\<lparr>scrapeErrorsMetric := Counter_Inc (scrapeErrorsMetric c),
        upMetric := Gauge_Set 0 (upMetric c)\<rparr>"
      and l: "\<exists>ls. logged (Collect c w) = ErrorDuringScrape e # ls"
      by (auto simp: after_Collect Collect_def Let_def split: prod.splits option.splits)
    from l obtain ls where "logged (Collect c w) = ErrorDuringScrape e # ls" ..
    with Inl a ms show ?thesis
      by (simp add: Counter_Inc_def Gauge_Set_def upSample_def errorsSample_def)
  next
    case (Inr data)
    from refresh_succeeded [OF st Inr]
    have a: "after (Collect c w) = c\<lparr>upMetric := Gauge_Set 1 (upMetric c), cache := data\<rparr>"
      by (simp add: after_Collect)
    from Inr have "Time data = clockRead w"
      by (auto simp: readData_def split: sum.splits)
    with Inr a ms show ?thesis
      by (simp add: Gauge_Set_def upSample_def)
  qed
qed

text \<open>The device out of reach and the device answering, each on a new collector.\<close>

theorem refresh_outcome_witness:
  "fetched (Collect flower (unreachable 1700000000))
   \<and> cache (after (Collect flower (unreachable 1700000000))) = cache flower
   \<and> counterValue (scrapeErrorsMetric (after (Collect flower (unreachable 1700000000)))) = 1
   \<and> gaugeValue (upMetric (after (Collect flower (unreachable 1700000000)))) = 0
   \<and> fetched (Collect flower (answering 1700000000))
   \<and> Firmware (cache (after (Collect flower (answering 1700000000)))) = firmware12
   \<and> gaugeValue (upMetric (after (Collect flower (answering 1700000000)))) = 1"
proof -
  have f1: "fetched (Collect flower (unreachable 1700000000))"
    by (simp add: fetched_Collect refresh_def flower_simps zero_sensorData_def unreachable_def
        time_defs split: sum.splits)
  have r1: "readData flower (unreachable 1700000000) = Inl (CanNotReadFirmware ''timeout'')"
    by (simp add: readData_def unreachable_def)
  have f2: "fetched (Collect flower (answering 1700000000))"
    by (simp add: fetched_Collect refresh_def flower_simps zero_sensorData_def answering_def
        time_defs split: sum.splits)
  have r2: "readData flower (answering 1700000000) =
      Inr \<lparr>Time = 1700000000 * Second + 3, Firmware = firmware12, Sensors = sensors350\<rparr>"
    by (simp add: readData_def answering_def)
  from refresh_outcome [OF f1] refresh_outcome [OF f2] f1 f2 show ?thesis
    by (simp add: r1 r2 flower_simps)
qed

text \<open>
  C4, amended. For a cache duration below the longest duration, a snapshot attempts a
  refresh exactly when the clock at the staleness check minus the capture time exceeds the
  cache duration; a new collector holds the zero time, and with the zero time in the cache
  and a clock at or after the Unix epoch the snapshot attempts a refresh.
\<close>

theorem refresh_iff_stale:
  assumes "minDuration \<le> CacheDuration c" and "CacheDuration c < maxDuration"
  shows "(fetched (Collect c w) \<longleftrightarrow> CacheDuration c < clockStale w - Time (cache c))
         \<and> (IsZero (Time (cache c)) \<and> 0 \<le> clockStale w \<longrightarrow> fetched (Collect c w))
         \<and> IsZero (Time (cache (newCollector m d (CacheDuration c))))"
proof -
  have 1: "fetched (Collect c w) \<longleftrightarrow> CacheDuration c < Since (clockStale w) (Time (cache c))"
    by (simp add: fetched_Collect refresh_def split: sum.splits)
  have 2: "CacheDuration c < Since (clockStale w) (Time (cache c)) \<longleftrightarrow>
      CacheDuration c < clockStale w - Time (cache c)"
    using assms by (auto simp: Since_def Sub_def Let_def)
  have 3: "CacheDuration c < clockStale w - Time (cache c)"
    if "IsZero (Time (cache c))" "0 \<le> clockStale w"
    using that assms by (simp add: IsZero_def zeroTime_def Second_def maxDuration_def)
  show ?thesis
    using 1 2 3 by (simp add: newCollector_fields zero_sensorData_def IsZero_def)
qed

theorem refresh_iff_stale_witness:
  "minDuration \<le> CacheDuration flower \<and> CacheDuration flower < maxDuration
   \<and> IsZero (Time (cache flower)) \<and> 0 \<le> clockStale (answering 1700000000)
   \<and> fetched (Collect flower (answering 1700000000))"
proof -
  have a: "minDuration \<le> CacheDuration flower" "CacheDuration flower < maxDuration"
    by (simp_all add: flower_simps time_defs)
  have z: "IsZero (Time (cache flower))" "0 \<le> clockStale (answering 1700000000)"
    by (simp_all add: flower_simps zero_sensorData_def IsZero_def answering_def Second_def)
  from refresh_iff_stale [OF a, of "answering 1700000000" "[]" "[]"] a z show ?thesis
    by blast
qed

text \<open>
  As stated, the claim fails for the longest duration, \<open>2 ^ 63 - 1\<close> nanoseconds: the age of
  the zero time is cut to exactly that duration and does not exceed it, so the first
  snapshot attempts no refresh.
\<close>

theorem first_snapshot_counterexample:
  "0 < CacheDuration patient
   \<and> IsZero (Time (cache patient))
   \<and> CacheDuration patient < clockStale (answering 1700000000) - Time (cache patient)
   \<and> \<not> fetched (Collect patient (answering 1700000000))"
  by (simp add: patient_def newCollector_fields zero_sensorData_def IsZero_def answering_def
      fetched_Collect refresh_def time_defs)

section \<open>The emission step\<close>

text \<open>
  C2. The emission step sends the samples of the emission order, in that order, up to the
  first one that fails validation, and returns the error of that one (no error when all
  pass): the samples after it are omitted. The order is timestamp, info, battery,
  conductivity, light, moisture, temperature. The liveness gauge and the error counter are
  the first two metrics of the snapshot whatever the emission step does, and the collector
  after the snapshot is the one the refresh left.
\<close>

theorem emission_in_order:
  "collectData c ch data =
     (ch @ map made (takeWhile accepted (emission c data)), first_refusal (emission c data))
   \<and> map fst (emission c data) =
       [scrapeTimestampDesc c, infoDesc c, batteryDesc c, conductivityDesc c, lightDesc c,
        moistureDesc c, temperatureDesc c]
   \<and> take 2 (sent (Collect c w)) = [upSample (fst (refresh c w)), errorsSample (fst (refresh c w))]
   \<and> after (Collect c w) = fst (refresh c w)"
proof -
  obtain ms where "sent (Collect c w) =
      [upSample (after (Collect c w)), errorsSample (after (Collect c w))] @ ms"
    using sent_Collect_prefix by blast
  then have "take 2 (sent (Collect c w)) =
      [upSample (fst (refresh c w)), errorsSample (fst (refresh c w))]"
    by (simp add: after_Collect)
  then show ?thesis
    by (simp add: collectData_prefix after_Collect emission_def)
qed

text \<open>
  C1, amended. When the cache is fresh and a sample of the emission order fails validation
  while all samples before it pass, the snapshot sends the liveness gauge, the error
  counter and the metrics of the samples before the failing one, and nothing else; the
  error is logged.
\<close>

theorem failure_cuts_emission:
  assumes "Since (clockFresh w) (Time (cache (after (Collect c w)))) < CacheDuration (after (Collect c w))"
    and "emission (after (Collect c w)) (cache (after (Collect c w))) = before @ s # rest"
    and "\<forall>x \<in> set before. accepted x"
    and "\<not> accepted s"
  shows "sent (Collect c w) =
           [upSample (after (Collect c w)), errorsSample (after (Collect c w))] @ map made before
         \<and> logged (Collect c w) = fst (snd (refresh c w)) @ [ErrorCollectingMetrics (refusal s)]"
proof -
  let ?c = "after (Collect c w)"
  let ?ch = "[upSample ?c, errorsSample ?c]"
  have cd: "collectData ?c ?ch (cache ?c) = (?ch @ map made before, Some (refusal s))"
    using assms(2-4)
    by (simp add: collectData_prefix takeWhile_cut dropWhile_cut first_refusal_def)
  from sent_Collect_fresh [OF assms(1)] cd
  have 1: "sent (Collect c w) = ?ch @ map made before" by simp
  from cd have "snd (collectData ?c ?ch (cache ?c)) = Some (refusal s)" by simp
  from logged_Collect_fresh [OF assms(1) this] 1 show ?thesis by simp
qed

text \<open>A collector whose info descriptor has lost its variable label: the info sample fails.\<close>

theorem failure_cuts_emission_witness:
  "sent (Collect miswired (answering 1700000000)) =
     [upSample (after (Collect miswired (answering 1700000000))),
      errorsSample (after (Collect miswired (answering 1700000000)))] @
     map made [(scrapeTimestampDesc flower, float64_of_int (Unix (Time reading)), [])]
   \<and> logged (Collect miswired (answering 1700000000)) =
       fst (snd (refresh miswired (answering 1700000000))) @
       [ErrorCollectingMetrics (refusal (infoDesc miswired, 1, [''1.2'']))]"
proof -
  have c: "cache (after (Collect miswired (answering 1700000000))) = reading"
    by (simp add: miswired_after)
  have e: "emission (after (Collect miswired (answering 1700000000)))
      (cache (after (Collect miswired (answering 1700000000)))) =
     [(scrapeTimestampDesc flower, float64_of_int (Unix (Time reading)), [])] @
     (infoDesc miswired, 1, [''1.2'']) #
     [(batteryDesc flower, float64_of_nat 80, []),
      (conductivityDesc flower, mul_factorConductivity 350, []),
      (lightDesc flower, float64_of_nat 1200, []),
      (moistureDesc flower, float64_of_nat 30, []),
      (temperatureDesc flower, 22.5, [])]"
    unfolding c by (rule miswired_emission)
  have b: "\<forall>x \<in> set [(scrapeTimestampDesc flower, float64_of_int (Unix (Time reading)), [])].
      accepted x"
    by (simp add: accepted.simps flower_descs)
  have s: "\<not> accepted (infoDesc miswired, 1, [''1.2''])"
    by (simp add: accepted.simps miswired_def)
  show ?thesis
    by (rule failure_cuts_emission [OF miswired_fresh e b s])
qed

text \<open>
  As stated, the claim fails: with that collector the info sample fails validation, the five
  gauges after it pass validation, and none of them is sent.
\<close>

theorem skipped_metric_counterexample:
  "\<not> accepted (emission miswired reading ! 1)
   \<and> list_all accepted (drop 2 (emission miswired reading))
   \<and> map (\<lambda>m. fqName (metricDesc m)) (sent (Collect miswired (answering 1700000000))) =
       [''flowercare_up'', ''flowercare_scrape_errors_total'', ''flowercare_scrape_timestamp'']"
proof -
  have "\<not> accepted (emission miswired reading ! 1)"
    by (simp add: emission_def accepted.simps miswired_def)
  moreover have "list_all accepted (drop 2 (emission miswired reading))"
    by (simp add: emission_def accepted.simps miswired_def flower_def newCollector_def
        NewDesc_def Let_def)
  moreover have "map (\<lambda>m. fqName (metricDesc m)) (sent (Collect miswired (answering 1700000000))) =
       [''flowercare_up'', ''flowercare_scrape_errors_total'', ''flowercare_scrape_timestamp'']"
    unfolding miswired_sent
    by (simp add: upSample_def errorsSample_def made.simps miswired_def flower_descs Gauge_Set_def)
  ultimately show ?thesis by blast
qed

section \<open>Freshness\<close>

text \<open>
  C5. With a clock that does not run backwards and shows a time between the Unix epoch and
  the year 2262: a snapshot sends more than the liveness gauge and the error counter only
  when the cache holds a reading (its time is not the zero time) and the clock minus the
  capture time is below the cache duration; the third metric is then the timestamp, whose
  value is the capture time in whole Unix seconds. Otherwise the snapshot sends the
  liveness gauge and the error counter only.
\<close>

theorem sensor_metrics_only_when_fresh:
  assumes adv: "clock_advances c w"
    and epoch: "0 \<le> clockStale w"
    and range: "clockFresh w \<le> maxDuration"
    and dur: "CacheDuration c \<le> maxDuration"
    and c': "c' = after (Collect c w)"
  shows "(2 < length (sent (Collect c w)) \<longrightarrow>
            \<not> IsZero (Time (cache c'))
            \<and> clockFresh w - Time (cache c') < CacheDuration c'
            \<and> sent (Collect c w) ! 2 =
                made (scrapeTimestampDesc c', of_int (Unix (Time (cache c'))), []))
         \<and> (\<not> (\<not> IsZero (Time (cache c')) \<and> clockFresh w - Time (cache c') < CacheDuration c') \<longrightarrow>
            sent (Collect c w) = [upSample c', errorsSample c'])"
proof -
  have le: "Time (cache c') \<le> clockFresh w"
    using cache_time_refresh [OF adv] by (simp add: c' after_Collect)
  have D: "CacheDuration c' = CacheDuration c"
    by (simp add: c' after_Collect CacheDuration_refresh)
  have now: "0 \<le> clockFresh w"
    using adv epoch by (simp add: clock_advances_def)
  have fresh: "\<not> IsZero (Time (cache c')) \<and> clockFresh w - Time (cache c') < CacheDuration c'
      \<and> \<bar>Unix (Time (cache c'))\<bar> < 2 ^ 53"
    if f: "Since (clockFresh w) (Time (cache c')) < CacheDuration c'"
  proof -
    from Since_exact [OF le _ f] dur D
    have d: "clockFresh w - Time (cache c') < CacheDuration c'" by simp
    with dur D have lo: "clockFresh w - maxDuration < Time (cache c')" by simp
    with now have "- (2 ^ 63) \<le> Time (cache c')"
      by (simp add: maxDuration_def)
    moreover from le range have "Time (cache c') \<le> 2 ^ 63"
      by (simp add: maxDuration_def)
    ultimately have "\<bar>Unix (Time (cache c'))\<bar> < 2 ^ 53"
      by (rule Unix_bound)
    moreover from lo now have "\<not> IsZero (Time (cache c'))"
      by (simp add: IsZero_def zeroTime_def Second_def maxDuration_def)
    ultimately show ?thesis using d by simp
  qed
  have stale: "sent (Collect c w) = [upSample c', errorsSample c']"
    if "\<not> Since (clockFresh w) (Time (cache c')) < CacheDuration c'"
    using that sent_Collect_not_fresh [of w c] by (simp add: c')
  have ts: "sent (Collect c w) ! 2 =
      made (scrapeTimestampDesc c', of_int (Unix (Time (cache c'))), [])"
    if f: "Since (clockFresh w) (Time (cache c')) < CacheDuration c'"
      and l: "2 < length (sent (Collect c w))"
  proof -
    from f have s: "sent (Collect c w) =
        [upSample c', errorsSample c'] @ map made (takeWhile accepted (emission c' (cache c')))"
      using sent_Collect_fresh [of w c] by (simp add: c' collectData_prefix)
    with l have "takeWhile accepted (emission c' (cache c')) \<noteq> []" by auto
    then have "hd (takeWhile accepted (emission c' (cache c'))) = hd (emission c' (cache c'))"
      by (simp add: emission_def split: if_splits)
    moreover have "sent (Collect c w) ! 2 = made (hd (takeWhile accepted (emission c' (cache c'))))"
      using s \<open>takeWhile accepted (emission c' (cache c')) \<noteq> []\<close>
      by (simp add: hd_map hd_conv_nth)
    ultimately show ?thesis
      using fresh [OF f] by (simp add: emission_def float64_of_int_small)
  qed
  show ?thesis
  proof (cases "Since (clockFresh w) (Time (cache c')) < CacheDuration c'")
    case True
    with fresh ts show ?thesis by simp
  next
    case False
    with stale show ?thesis by simp
  qed
qed

theorem sensor_metrics_only_when_fresh_witness:
  "clock_advances flower (answering 1700000000)
   \<and> 2 < length (sent (Collect flower (answering 1700000000)))
   \<and> metricValue (sent (Collect flower (answering 1700000000)) ! 2) = 1700000000
   \<and> IsZero (Time (cache (after (Collect flower (unreachable 1700000000)))))
   \<and> length (sent (Collect flower (unreachable 1700000000))) = 2"
proof -
  have a1: "clock_advances flower (answering 1700000000)"
    and a2: "clock_advances flower (unreachable 1700000000)"
    by (simp_all add: clock_advances_def flower_simps zero_sensorData_def answering_def
      unreachable_def time_defs)
  have e: "0 \<le> clockStale (answering 1700000000)" "0 \<le> clockStale (unreachable 1700000000)"
    by (simp_all add: answering_def unreachable_def Second_def)
  have r: "clockFresh (answering 1700000000) \<le> maxDuration"
    "clockFresh (unreachable 1700000000) \<le> maxDuration"
    by (simp_all add: answering_def unreachable_def Second_def maxDuration_def)
  have d: "CacheDuration flower \<le> maxDuration"
    by (simp add: flower_simps time_defs)
  have l: "2 < length (sent (Collect flower (answering 1700000000)))"
    by (simp add: flower_sent_answering emission_def)
  have z: "IsZero (Time (cache (after (Collect flower (unreachable 1700000000)))))"
    by (simp add: flower_after_unreachable flower_simps zero_sensorData_def IsZero_def)
  have u: "Unix (Time (cache (after (Collect flower (answering 1700000000))))) = 1700000000"
    by (simp add: flower_after_answering reading_def Unix_def Second_def)
  from sensor_metrics_only_when_fresh [OF a1 e(1) r(1) d refl]
    sensor_metrics_only_when_fresh [OF a2 e(2) r(2) d refl] a1 l z u
  show ?thesis
    by (simp add: made.simps)
qed

text \<open>
  C8. Two snapshots in the same cache window: after the first snapshot no later one up to
  and including the second attempts a refresh, and the cache is fresh at the freshness
  check of both. Then both send the same sensor metrics (everything after the liveness
  gauge and the error counter), the timestamp among them.
\<close>

theorem same_window_same_metrics:
  assumes c1: "c1 = after (Collect c w1)"
    and between: "list_all (\<lambda>r. \<not> fetched r) (scrapes c1 ws)"
    and second: "\<not> fetched (Collect (final c1 ws) w2)"
    and fresh1: "Since (clockFresh w1) (Time (cache c1)) < CacheDuration c1"
    and fresh2: "Since (clockFresh w2) (Time (cache c1)) < CacheDuration c1"
  shows "drop 2 (sent (Collect (final c1 ws) w2)) = drop 2 (sent (Collect c w1))
         \<and> cache (after (Collect (final c1 ws) w2)) = cache c1"
proof -
  from between have f: "final c1 ws = c1" by (rule no_refresh_final)
  with second have a: "after (Collect c1 w2) = c1" by (simp add: not_fetched_same)
  from fresh1 have "drop 2 (sent (Collect c w1)) =
      map made (takeWhile accepted (emission c1 (cache c1)))"
    by (simp add: sensor_part c1)
  moreover from fresh2 a have "drop 2 (sent (Collect c1 w2)) =
      map made (takeWhile accepted (emission c1 (cache c1)))"
    by (simp add: sensor_part)
  ultimately show ?thesis using f a by simp
qed

theorem same_window_same_metrics_witness:
  "drop 2 (sent (Collect (final (after (Collect flower (answering 1700000000)))
                    [unreachable 1700000010]) (unreachable 1700000020))) =
   drop 2 (sent (Collect flower (answering 1700000000)))
   \<and> length (drop 2 (sent (Collect flower (answering 1700000000)))) = 7"
proof -
  let ?c1 = "after (Collect flower (answering 1700000000))"
  have c1: "?c1 = flower\<lparr>upMetric := Gauge_Set 1 (upMetric flower), cache := reading\<rparr>"
    by (rule flower_after_answering)
  have n1: "\<not> fetched (Collect ?c1 (unreachable 1700000010))"
    unfolding c1
    by (simp add: fetched_Collect refresh_def flower_simps reading_def unreachable_def time_defs)
  then have b: "list_all (\<lambda>r. \<not> fetched r) (scrapes ?c1 [unreachable 1700000010])"
    by simp
  have n2: "\<not> fetched (Collect (final ?c1 [unreachable 1700000010]) (unreachable 1700000020))"
    unfolding no_refresh_final [OF b] unfolding c1
    by (simp add: fetched_Collect refresh_def flower_simps reading_def unreachable_def time_defs)
  have f1: "Since (clockFresh (answering 1700000000)) (Time (cache ?c1)) < CacheDuration ?c1"
    unfolding c1 by (simp add: flower_simps reading_def answering_def time_defs)
  have f2: "Since (clockFresh (unreachable 1700000020)) (Time (cache ?c1)) < CacheDuration ?c1"
    unfolding c1 by (simp add: flower_simps reading_def unreachable_def time_defs)
  from same_window_same_metrics [OF refl b n2 f1 f2] show ?thesis
    by (simp add: flower_sent_answering emission_def)
qed

text \<open>
  C10, amended. With a cache duration that is not positive and a clock that does not run
  backwards, a snapshot sends the liveness gauge and the error counter and no sensor
  metric; it attempts a refresh when the cache duration is negative, and with the cache
  duration zero exactly when the clock at the staleness check is later than the capture
  time.
\<close>

theorem nonpositive_duration:
  assumes "clock_advances c w" and "CacheDuration c \<le> 0"
  shows "sent (Collect c w) = [upSample (after (Collect c w)), errorsSample (after (Collect c w))]
         \<and> (fetched (Collect c w) \<longleftrightarrow> CacheDuration c < 0 \<or> Time (cache c) < clockStale w)"
proof -
  have "Time (cache (after (Collect c w))) \<le> clockFresh w"
    using cache_time_refresh [OF assms(1)] by (simp add: after_Collect)
  then have "0 \<le> Since (clockFresh w) (Time (cache (after (Collect c w))))"
    by (rule Since_lower)
  with assms(2) have "\<not> Since (clockFresh w) (Time (cache (after (Collect c w))))
      < CacheDuration (after (Collect c w))"
    by (simp add: after_Collect CacheDuration_refresh)
  then have 1: "sent (Collect c w) =
      [upSample (after (Collect c w)), errorsSample (after (Collect c w))]"
    by (rule sent_Collect_not_fresh)
  have f: "fetched (Collect c w) \<longleftrightarrow> CacheDuration c < Since (clockStale w) (Time (cache c))"
    by (simp add: fetched_Collect refresh_def split: sum.splits)
  from assms have "CacheDuration c < Since (clockStale w) (Time (cache c)) \<longleftrightarrow>
      CacheDuration c < 0 \<or> Time (cache c) < clockStale w"
    by (auto simp: clock_advances_def Since_def Sub_def Let_def maxDuration_def minDuration_def)
  with 1 f show ?thesis by simp
qed

text \<open>The first snapshot of a collector with cache duration zero.\<close>

theorem nonpositive_duration_witness:
  "clock_advances restless (instant 1700000000)
   \<and> CacheDuration restless \<le> 0
   \<and> fetched (Collect restless (instant 1700000000))
   \<and> length (sent (Collect restless (instant 1700000000))) = 2"
proof -
  have a: "clock_advances restless (instant 1700000000)"
    by (simp add: clock_advances_def restless_def newCollector_fields zero_sensorData_def
        instant_def time_defs)
  have d: "CacheDuration restless \<le> 0"
    by (simp add: restless_def newCollector_fields)
  have "Time (cache restless) < clockStale (instant 1700000000)"
    by (simp add: restless_def newCollector_fields zero_sensorData_def instant_def time_defs)
  with nonpositive_duration [OF a d] a d show ?thesis
    by simp
qed

text \<open>
  As stated, the claim fails for the cache duration zero: a snapshot whose clock still shows the
  nanosecond at which the cached reading was stamped finds the age zero, which does not
  exceed the cache duration, and attempts no refresh.
\<close>

theorem zero_duration_counterexample:
  "CacheDuration (after (Collect restless (instant 1700000000))) \<le> 0
   \<and> clock_advances (after (Collect restless (instant 1700000000))) (instant 1700000000)
   \<and> \<not> fetched (Collect (after (Collect restless (instant 1700000000))) (instant 1700000000))"
proof -
  have a: "after (Collect restless (instant 1700000000)) =
      restless\<lparr>upMetric := Gauge_Set 1 (upMetric restless),
        cache := \<lparr>Time = 1700000000 * Second, Firmware = firmware12, Sensors = sensors350\<rparr>\<rparr>"
    by (simp add: after_Collect refresh_def restless_def newCollector_fields zero_sensorData_def
        instant_def readData_def time_defs)
  show ?thesis
    unfolding a
    by (simp add: fetched_Collect refresh_def restless_def newCollector_fields clock_advances_def
        instant_def time_defs)
qed

section \<open>The error counter\<close>

text \<open>
  C7. Over any sequence of snapshots the error counter never decreases; a snapshot adds
  one to it when its refresh is attempted and fails and leaves it otherwise, so that after
  the sequence the counter has grown by the number of failed refreshes; the second metric
  of every snapshot carries the counter.
\<close>

theorem errors_counter_counts_failures:
  "sorted (counterValue (scrapeErrorsMetric c) #
           map (\<lambda>r. counterValue (scrapeErrorsMetric (after r))) (scrapes c ws))
   \<and> counterValue (scrapeErrorsMetric (after (Collect c w))) =
       counterValue (scrapeErrorsMetric c) + (if refresh_fails c w then 1 else 0)
   \<and> counterValue (scrapeErrorsMetric (final c ws)) =
       counterValue (scrapeErrorsMetric c) + failures c ws
   \<and> metricValue (sent (Collect c w) ! 1) =
       real (counterValue (scrapeErrorsMetric (after (Collect c w))))"
  using counter_sorted counter_step counter_final counter_sent by blast

section \<open>The conductivity\<close>

text \<open>
  C6, amended. For a conductivity \<open>V\<close> that a \<^verbatim>\<open>float64\<close> holds exactly
  (below \<open>2 ^ 53\<close>), the value paired with the conductivity descriptor is the
  \<^verbatim>\<open>float64\<close> product of \<open>V\<close> and the \<^verbatim>\<open>float64\<close> nearest to
  0.0001; it differs from \<open>V * 0.0001\<close> by at most \<open>V * 0.0001 / 2 ^ 52\<close>, and it
  is 0 for \<open>V = 0\<close>.
\<close>

theorem conductivity_value:
  assumes "Conductivity (Sensors data) < 2 ^ 53"
  shows "fst (gauges c data ! 1) = conductivityDesc c
         \<and> snd (gauges c data ! 1) = mul_factorConductivity (Conductivity (Sensors data))
         \<and> \<bar>snd (gauges c data ! 1) - real (Conductivity (Sensors data)) * (1 / 10000)\<bar>
             \<le> real (Conductivity (Sensors data)) * (1 / 10000) / 2 ^ 52
         \<and> (Conductivity (Sensors data) = 0 \<longrightarrow> snd (gauges c data ! 1) = 0)"
proof -
  have g: "gauges c data ! 1 =
      (conductivityDesc c, mul_factorConductivity (Conductivity (Sensors data)))"
    by (simp add: gauges_def)
  have z: "mul_factorConductivity 0 = 0"
    by (simp add: mul_factorConductivity_def round53_small)
  from mul_factorConductivity_bound [OF assms] g z show ?thesis
    by auto
qed

text \<open>The conductivities 350 and 0.\<close>

theorem conductivity_value_witness:
  "Conductivity (Sensors reading) < 2 ^ 53
   \<and> \<bar>snd (gauges flower reading ! 1) - real (Conductivity (Sensors reading)) * (1 / 10000)\<bar>
       \<le> real (Conductivity (Sensors reading)) * (1 / 10000) / 2 ^ 52
   \<and> Conductivity (Sensors zero_sensorData) = 0
   \<and> snd (gauges flower zero_sensorData ! 1) = 0"
proof -
  have a: "Conductivity (Sensors reading) < 2 ^ 53" "Conductivity (Sensors reading) = 350"
    by (simp_all add: reading_def sensors350_def)
  have b: "Conductivity (Sensors zero_sensorData) < 2 ^ 53" "Conductivity (Sensors zero_sensorData) = 0"
    by (simp_all add: zero_sensorData_def)
  from conductivity_value [OF a(1), of flower] conductivity_value [OF b(1), of flower] a b
  show ?thesis by blast
qed

text \<open>
  As stated, the claim fails for \<open>V = 3\<close>: the value sent is
  \<open>5534023222112866 / 2 ^ 64\<close>, which is not \<open>3 * 0.0001\<close> and not even the
  \<^verbatim>\<open>float64\<close> nearest to it, \<open>5534023222112865 / 2 ^ 64\<close>.
\<close>

theorem conductivity_counterexample:
  "fst (gauges flower reading3 ! 1) = conductivityDesc flower
   \<and> snd (gauges flower reading3 ! 1) = 5534023222112866 / 2 ^ 64
   \<and> snd (gauges flower reading3 ! 1) \<noteq> 3 * 0.0001
   \<and> \<bar>5534023222112865 / 2 ^ 64 - 3 * 0.0001\<bar> < \<bar>snd (gauges flower reading3 ! 1) - 3 * (0.0001 :: real)\<bar>"
  by (simp add: gauges_def reading3_def mul_factorConductivity_3)

section \<open>Startup\<close>

text \<open>
  C9. When the device address is empty, or the adapter is empty, \<^verbatim>\<open>main\<close> does
  nothing but log the configuration error and end the process: no reader, collector,
  registration or server comes before. The device address is the flag or empty, the
  adapter the flag or hci0. Without the cache duration flag the cache duration is 2
  minutes, which is positive.
\<close>

theorem startup_refuses_empty:
  "(config.MacAddress (fst (parseConfig fl)) = [] \<longrightarrow> main fl = [LogFatal NeedDeviceAddress])
   \<and> (config.MacAddress (fst (parseConfig fl)) \<noteq> [] \<and> config.Device (fst (parseConfig fl)) = [] \<longrightarrow>
        main fl = [LogFatal NeedBluetoothDevice])
   \<and> (config.MacAddress (fst (parseConfig fl)) = [] \<or> config.Device (fst (parseConfig fl)) = [] \<longrightarrow>
        \<not> list_ex touches_outside (main fl))
   \<and> config.MacAddress (fst (parseConfig fl)) = flagVar [] (flag_device fl)
   \<and> config.Device (fst (parseConfig fl)) = flagVar ''hci0'' (flag_adapter fl)
   \<and> (flag_cache_duration fl = None \<longrightarrow>
        config.CacheDuration (fst (parseConfig fl)) = 2 * Minute
        \<and> 0 < config.CacheDuration (fst (parseConfig fl))
        \<and> config.CacheDuration (fst (parseConfig fl)) = 120 * Second)"
proof -
  have 1: "main fl = [LogFatal NeedDeviceAddress]"
    if "config.MacAddress (fst (parseConfig fl)) = []"
    using that by (intro main_fatal) (simp add: parseConfig_error)
  have 2: "main fl = [LogFatal NeedBluetoothDevice]"
    if "config.MacAddress (fst (parseConfig fl)) \<noteq> []" "config.Device (fst (parseConfig fl)) = []"
    using that by (intro main_fatal) (simp add: parseConfig_error)
  have 3: "\<not> list_ex touches_outside (main fl)"
    if "config.MacAddress (fst (parseConfig fl)) = [] \<or> config.Device (fst (parseConfig fl)) = []"
    using that 1 2 by (cases "config.MacAddress (fst (parseConfig fl)) = []") auto
  have 4: "config.CacheDuration (fst (parseConfig fl)) = 2 * Minute
        \<and> 0 < config.CacheDuration (fst (parseConfig fl))
        \<and> config.CacheDuration (fst (parseConfig fl)) = 120 * Second"
    if "flag_cache_duration fl = None"
    using that by (simp add: parseConfig_fields flagVar_def Minute_def Second_def)
  have 5: "config.MacAddress (fst (parseConfig fl)) = flagVar [] (flag_device fl)"
    "config.Device (fst (parseConfig fl)) = flagVar ''hci0'' (flag_adapter fl)"
    by (rule parseConfig_fields)+
  from 1 2 3 4 5 show ?thesis
    by blast
qed

text \<open>No flag at all, an empty adapter, and an address alone.\<close>

theorem startup_refuses_empty_witness:
  "main no_flags = [LogFatal NeedDeviceAddress]
   \<and> main empty_adapter = [LogFatal NeedBluetoothDevice]
   \<and> \<not> list_ex touches_outside (main no_flags)
   \<and> \<not> list_ex touches_outside (main empty_adapter)
   \<and> config.CacheDuration (fst (parseConfig address_only)) = 120000000000
   \<and> list_ex touches_outside (main address_only)"
proof -
  have m1: "config.MacAddress (fst (parseConfig no_flags)) = []"
    by (simp add: parseConfig_fields no_flags_def flagVar_def)
  have m2: "config.MacAddress (fst (parseConfig empty_adapter)) \<noteq> []"
    "config.Device (fst (parseConfig empty_adapter)) = []"
    by (simp_all add: parseConfig_fields empty_adapter_def flagVar_def)
  have m3: "flag_cache_duration address_only = None"
    by (simp add: address_only_def)
  have m4: "list_ex touches_outside (main address_only)"
    by (simp add: main_def parseConfig_def address_only_def flagVar_def Let_def)
  from startup_refuses_empty [of no_flags] startup_refuses_empty [of empty_adapter]
    startup_refuses_empty [of address_only] m1 m2 m3 m4
  show ?thesis
    by (simp add: Second_def)
qed

end
